theory Spec2Isabelle
  imports Main "HOL-Library.Word"
begin

section \<open>The unique identifier counter of CAtomic.c\<close>

text \<open>
  \<^verbatim>\<open>static _Atomic uint64_t _cmarkup_unique_id = 0;\<close>

  The only state of the program is one unsigned 64-bit object. It is a field of the
  record of globals; addition on \<open>64 word\<close> wraps around as \<open>uint64_t\<close> does. The
  leading underscore of the C names is dropped, an Isabelle name cannot start with it.
  \<open>_Atomic\<close> makes every access to the object indivisible; what is modelled here are
  the calls of one thread, one after the other.

  The functions below are defined on every extension \<open>'a globals_scheme\<close> of the
  record. The extension stands for whatever else the process holds besides the counter;
  \<open>globals\<close> itself is the record with nothing else in it.
\<close>

type_synonym uint64_t = "64 word"

record globals =
  cmarkup_unique_id :: uint64_t

text \<open>The static initialiser: the globals as they are when the process starts.\<close>

definition process_start :: globals where
  "process_start = \<lparr>cmarkup_unique_id = 0\<rparr>"

text \<open>
  \<^verbatim>\<open>uint64_t _cmarkup_current_unique_id(void) { return _cmarkup_unique_id; }\<close>

  A call takes the globals and gives the returned value with the globals after it.
\<close>

definition cmarkup_current_unique_id ::
  "'a globals_scheme \<Rightarrow> uint64_t \<times> 'a globals_scheme" where
  "cmarkup_current_unique_id g = (cmarkup_unique_id g, g)"

text \<open>
  \<^verbatim>\<open>uint64_t _cmarkup_increment_and_get_unique_id(void) { return ++_cmarkup_unique_id; }\<close>

  The prefix increment stores the old value plus one and yields the stored value.
\<close>

definition cmarkup_increment_and_get_unique_id ::
  "'a globals_scheme \<Rightarrow> uint64_t \<times> 'a globals_scheme" where
  "cmarkup_increment_and_get_unique_id g =
     (let g' = g\<lparr>cmarkup_unique_id := cmarkup_unique_id g + 1\<rparr>
      in (cmarkup_unique_id g', g'))"

subsection \<open>Sequences of calls\<close>

text \<open>The two entry points that CAtomic.h declares.\<close>

datatype entry_point = Current_unique_id | Increment_and_get_unique_id

fun call :: "entry_point \<Rightarrow> 'a globals_scheme \<Rightarrow> uint64_t \<times> 'a globals_scheme" where
  "call Current_unique_id g = cmarkup_current_unique_id g"
| "call Increment_and_get_unique_id g = cmarkup_increment_and_get_unique_id g"

text \<open>
  A single thread calling the entry points one after the other: the returned values in
  the order of the calls, and the globals after the last call.
\<close>

fun run ::
  "entry_point list \<Rightarrow> 'a globals_scheme \<Rightarrow> uint64_t list \<times> 'a globals_scheme" where
  "run [] g = ([], g)"
| "run (e # es) g =
     (let (v, g') = call e g;
          (vs, g'') = run es g'
      in (v # vs, g''))"

text \<open>
  The largest \<open>uint64_t\<close>, \<open>2^64 - 1\<close>. Wraparound has occurred in a sequence of
  calls when one of its increments was executed with the counter at that value.
\<close>

definition UINT64_MAX :: uint64_t where
  "UINT64_MAX = 18446744073709551615"

fun wraparound_occurred :: "entry_point list \<Rightarrow> 'a globals_scheme \<Rightarrow> bool" where
  "wraparound_occurred [] g = False"
| "wraparound_occurred (e # es) g =
     ((e = Increment_and_get_unique_id \<and> cmarkup_unique_id g = UINT64_MAX)
      \<or> wraparound_occurred es (snd (call e g)))"

section \<open>Properties\<close>

subsection \<open>Auxiliary facts\<close>

lemma current_value [simp]: "fst (cmarkup_current_unique_id g) = cmarkup_unique_id g"
  by (simp add: cmarkup_current_unique_id_def)

lemma current_globals [simp]: "snd (cmarkup_current_unique_id g) = g"
  by (simp add: cmarkup_current_unique_id_def)

lemma increment_value [simp]:
  "fst (cmarkup_increment_and_get_unique_id g) = cmarkup_unique_id g + 1"
  by (simp add: cmarkup_increment_and_get_unique_id_def)

lemma increment_globals [simp]:
  "snd (cmarkup_increment_and_get_unique_id g) = g\<lparr>cmarkup_unique_id := cmarkup_unique_id g + 1\<rparr>"
  by (simp add: cmarkup_increment_and_get_unique_id_def)

lemma unat_plus_one: "unat (a + 1 :: uint64_t) = (unat a + 1) mod 2 ^ 64"
  by (simp add: unat_word_ariths)

lemma unat_UINT64_MAX: "unat UINT64_MAX = 2 ^ 64 - 1"
  by (simp add: UINT64_MAX_def)

lemma UINT64_MAX_iff: "x = UINT64_MAX \<longleftrightarrow> unat x = 2 ^ 64 - 1"
  by (simp add: word_unat_eq_iff unat_UINT64_MAX)

lemma increment_at_max: "UINT64_MAX + 1 = 0"
  by (simp add: UINT64_MAX_def)

lemma below_max:
  fixes x :: uint64_t
  assumes "x \<noteq> UINT64_MAX"
  shows "unat x + 1 < 2 ^ 64"
proof -
  have "unat x < 2 ^ 64"
    using unsigned_less [of x] by simp
  moreover have "unat x \<noteq> 2 ^ 64 - 1"
    using assms by (simp add: UINT64_MAX_iff)
  ultimately show ?thesis by simp
qed

lemma less_successor:
  fixes x :: uint64_t
  assumes "x \<noteq> UINT64_MAX"
  shows "x < x + 1"
proof -
  have "unat (x + 1) = unat x + 1"
    using below_max [OF assms] by (simp add: unat_plus_one)
  then show ?thesis
    by (simp add: word_less_nat_alt)
qed

text \<open>Facts about sequences of calls, each for any starting state.\<close>

lemma call_returns_counter: "fst (call e g) = cmarkup_unique_id (snd (call e g))"
  by (cases e) simp_all

lemma call_counter_le:
  assumes "\<not> (e = Increment_and_get_unique_id \<and> cmarkup_unique_id g = UINT64_MAX)"
  shows "cmarkup_unique_id g \<le> cmarkup_unique_id (snd (call e g))"
proof (cases e)
  case Current_unique_id
  then show ?thesis by simp
next
  case Increment_and_get_unique_id
  with assms have "cmarkup_unique_id g \<noteq> UINT64_MAX" by simp
  then have "cmarkup_unique_id g < cmarkup_unique_id g + 1" by (rule less_successor)
  with Increment_and_get_unique_id show ?thesis by simp
qed

lemma run_append_values:
  "fst (run (es @ fs) g) = fst (run es g) @ fst (run fs (snd (run es g)))"
  by (induction es arbitrary: g) (simp_all add: split_beta)

lemma wraparound_occurred_append:
  "wraparound_occurred (es @ fs) g
     \<longleftrightarrow> wraparound_occurred es g \<or> wraparound_occurred fs (snd (run es g))"
  by (induction es arbitrary: g) (simp_all add: split_beta)

lemma no_wrap_bounds:
  assumes "\<not> wraparound_occurred es g"
  shows "cmarkup_unique_id g \<le> cmarkup_unique_id (snd (run es g))
     \<and> (\<forall>v \<in> set (fst (run es g)). v \<le> cmarkup_unique_id (snd (run es g)))"
  using assms
proof (induction es arbitrary: g)
  case Nil
  then show ?case by simp
next
  case (Cons e es)
  let ?g' = "snd (call e g)"
  let ?end = "cmarkup_unique_id (snd (run es ?g'))"
  from Cons.prems have step: "cmarkup_unique_id g \<le> cmarkup_unique_id ?g'"
    by (intro call_counter_le) simp
  from Cons.prems have "\<not> wraparound_occurred es ?g'"
    by simp
  from Cons.IH [OF this] have rest: "cmarkup_unique_id ?g' \<le> ?end"
    and vals: "\<forall>v \<in> set (fst (run es ?g')). v \<le> ?end"
    by simp_all
  from step rest have "cmarkup_unique_id g \<le> ?end"
    by (rule order_trans)
  moreover from rest have "fst (call e g) \<le> ?end"
    by (simp add: call_returns_counter)
  ultimately show ?case
    using vals by (simp add: split_beta)
qed

lemma increment_exceeds_earlier:
  assumes "\<not> wraparound_occurred (es @ [Increment_and_get_unique_id]) g"
  shows "\<forall>v \<in> set (butlast (fst (run (es @ [Increment_and_get_unique_id]) g))).
           v < last (fst (run (es @ [Increment_and_get_unique_id]) g))"
proof -
  let ?g' = "snd (run es g)"
  from assms have quiet: "\<not> wraparound_occurred es g"
    and room: "cmarkup_unique_id ?g' \<noteq> UINT64_MAX"
    by (simp_all add: wraparound_occurred_append)
  have shape: "fst (run (es @ [Increment_and_get_unique_id]) g)
      = fst (run es g) @ [cmarkup_unique_id ?g' + 1]"
    by (simp add: run_append_values split_beta)
  from room have "cmarkup_unique_id ?g' < cmarkup_unique_id ?g' + 1"
    by (rule less_successor)
  with no_wrap_bounds [OF quiet] have "\<forall>v \<in> set (fst (run es g)). v < cmarkup_unique_id ?g' + 1"
    by (auto elim: order_le_less_trans)
  then show ?thesis
    unfolding shape by simp
qed

text \<open>After \<open>k\<close> increments the counter has advanced by \<open>k\<close>, modulo \<open>2^64\<close>.\<close>

lemma run_replicate_increment:
  "cmarkup_unique_id (snd (run (replicate k Increment_and_get_unique_id) g)) = cmarkup_unique_id g + of_nat k"
  by (induction k arbitrary: g) (simp_all add: split_beta Let_def)

lemma current_after_increments:
  "unat (fst (cmarkup_current_unique_id
     (snd (run (replicate k Increment_and_get_unique_id) process_start)))) = k mod 2 ^ 64"
  by (simp add: run_replicate_increment process_start_def unat_of_nat)

text \<open>A call reads nothing but the counter and writes nothing but the counter.\<close>

lemma call_value_from_counter:
  assumes "cmarkup_unique_id g1 = cmarkup_unique_id g2"
  shows "fst (call e g1) = fst (call e g2)"
  using assms by (cases e) simp_all

lemma call_counter_from_counter:
  assumes "cmarkup_unique_id g1 = cmarkup_unique_id g2"
  shows "cmarkup_unique_id (snd (call e g1)) = cmarkup_unique_id (snd (call e g2))"
  using assms by (cases e) simp_all

lemma call_keeps_rest: "globals.more (snd (call e g)) = globals.more g"
  by (cases e) simp_all

subsection \<open>The two operations\<close>

text \<open>
  C1, as amended. In every state \<open>g\<close> with counter \<open>s\<close>, \<open>incrementAndGet\<close> sets
  the counter to \<open>s + 1\<close> modulo \<open>2^64\<close>, returns that new value and touches nothing
  else. Of two calls in a row the second returns the first value plus one modulo
  \<open>2^64\<close>: exactly one more than the first, unless the first returned \<open>2^64 - 1\<close>,
  and then the second returns 0.
\<close>

theorem increment_and_get_post_increment:
  "snd (cmarkup_increment_and_get_unique_id g)
     = g\<lparr>cmarkup_unique_id := cmarkup_unique_id g + 1\<rparr>
   \<and> unat (cmarkup_unique_id (snd (cmarkup_increment_and_get_unique_id g)))
     = (unat (cmarkup_unique_id g) + 1) mod 2 ^ 64
   \<and> fst (cmarkup_increment_and_get_unique_id g)
     = cmarkup_unique_id (snd (cmarkup_increment_and_get_unique_id g))
   \<and> fst (cmarkup_increment_and_get_unique_id (snd (cmarkup_increment_and_get_unique_id g)))
     = fst (cmarkup_increment_and_get_unique_id g) + 1
   \<and> unat (fst (cmarkup_increment_and_get_unique_id
                   (snd (cmarkup_increment_and_get_unique_id g))))
     = (unat (fst (cmarkup_increment_and_get_unique_id g)) + 1) mod 2 ^ 64
   \<and> (fst (cmarkup_increment_and_get_unique_id g) \<noteq> UINT64_MAX \<longrightarrow>
        unat (fst (cmarkup_increment_and_get_unique_id
                     (snd (cmarkup_increment_and_get_unique_id g))))
          = unat (fst (cmarkup_increment_and_get_unique_id g)) + 1
        \<and> fst (cmarkup_increment_and_get_unique_id g)
          < fst (cmarkup_increment_and_get_unique_id
                   (snd (cmarkup_increment_and_get_unique_id g))))
   \<and> (fst (cmarkup_increment_and_get_unique_id g) = UINT64_MAX \<longrightarrow>
        fst (cmarkup_increment_and_get_unique_id
               (snd (cmarkup_increment_and_get_unique_id g))) = 0)"
proof -
  let ?first = "cmarkup_increment_and_get_unique_id g"
  let ?second = "cmarkup_increment_and_get_unique_id (snd ?first)"
  have stored: "snd ?first = g\<lparr>cmarkup_unique_id := cmarkup_unique_id g + 1\<rparr>"
    by simp
  have wraps: "unat (cmarkup_unique_id (snd ?first)) = (unat (cmarkup_unique_id g) + 1) mod 2 ^ 64"
    by (simp add: unat_plus_one)
  have returned: "fst ?first = cmarkup_unique_id (snd ?first)"
    by simp
  have next_word: "fst ?second = fst ?first + 1"
    by simp
  have next_nat: "unat (fst ?second) = (unat (fst ?first) + 1) mod 2 ^ 64"
    unfolding next_word by (rule unat_plus_one)
  have below: "unat (fst ?second) = unat (fst ?first) + 1 \<and> fst ?first < fst ?second"
    if room: "fst ?first \<noteq> UINT64_MAX"
  proof
    from below_max [OF room] show "unat (fst ?second) = unat (fst ?first) + 1"
      unfolding next_nat by simp
    from less_successor [OF room] show "fst ?first < fst ?second"
      unfolding next_word .
  qed
  have at_top: "fst ?second = 0" if "fst ?first = UINT64_MAX"
    unfolding next_word that by (rule increment_at_max)
  from stored wraps returned next_word next_nat below at_top show ?thesis
    by blast
qed

text \<open>Two increments with the counter at 5: they return 6 and then 7.\<close>

theorem increment_and_get_post_increment_witness:
  "fst (cmarkup_increment_and_get_unique_id \<lparr>cmarkup_unique_id = 5\<rparr>) \<noteq> UINT64_MAX
   \<and> fst (cmarkup_increment_and_get_unique_id \<lparr>cmarkup_unique_id = 5\<rparr>) = 6
   \<and> fst (cmarkup_increment_and_get_unique_id
            (snd (cmarkup_increment_and_get_unique_id \<lparr>cmarkup_unique_id = 5\<rparr>))) = 7
   \<and> unat (fst (cmarkup_increment_and_get_unique_id
                  (snd (cmarkup_increment_and_get_unique_id \<lparr>cmarkup_unique_id = 5\<rparr>))))
     = unat (fst (cmarkup_increment_and_get_unique_id \<lparr>cmarkup_unique_id = 5\<rparr>)) + 1"
proof -
  have room: "fst (cmarkup_increment_and_get_unique_id \<lparr>cmarkup_unique_id = 5\<rparr>) \<noteq> UINT64_MAX"
    by (simp add: UINT64_MAX_def)
  from increment_and_get_post_increment [of "\<lparr>cmarkup_unique_id = 5\<rparr>"] room
  show ?thesis
    by simp
qed

text \<open>
  C1, as stated, for every state: it fails with the counter at \<open>2^64 - 2\<close>. The first
  call returns \<open>2^64 - 1\<close> and the second returns 0, which is not one greater.
\<close>

theorem second_increment_not_one_greater_counterexample:
  "fst (cmarkup_increment_and_get_unique_id \<lparr>cmarkup_unique_id = 18446744073709551614\<rparr>)
     = 18446744073709551615
   \<and> fst (cmarkup_increment_and_get_unique_id
            (snd (cmarkup_increment_and_get_unique_id
                    \<lparr>cmarkup_unique_id = 18446744073709551614\<rparr>))) = 0
   \<and> unat (fst (cmarkup_increment_and_get_unique_id
                  (snd (cmarkup_increment_and_get_unique_id
                          \<lparr>cmarkup_unique_id = 18446744073709551614\<rparr>))))
     \<noteq> unat (fst (cmarkup_increment_and_get_unique_id
                     \<lparr>cmarkup_unique_id = 18446744073709551614\<rparr>)) + 1
   \<and> \<not> fst (cmarkup_increment_and_get_unique_id
                \<lparr>cmarkup_unique_id = 18446744073709551614\<rparr>)
       < fst (cmarkup_increment_and_get_unique_id
                (snd (cmarkup_increment_and_get_unique_id
                        \<lparr>cmarkup_unique_id = 18446744073709551614\<rparr>)))"
  by simp

text \<open>
  C2. When the process starts the counter is zero: \<open>current\<close> returns 0 before any
  increment, and the first \<open>incrementAndGet\<close> returns 1.
\<close>

theorem fresh_start_values:
  "cmarkup_unique_id process_start = 0
   \<and> fst (cmarkup_current_unique_id process_start) = 0
   \<and> fst (cmarkup_increment_and_get_unique_id process_start) = 1
   \<and> fst (cmarkup_increment_and_get_unique_id (snd (cmarkup_current_unique_id process_start))) = 1"
  by (simp add: process_start_def)

text \<open>
  C6. In every state \<open>current\<close> returns the value of the counter and leaves the
  globals as they were.
\<close>

theorem current_reads_without_writing:
  "fst (cmarkup_current_unique_id g) = cmarkup_unique_id g
   \<and> snd (cmarkup_current_unique_id g) = g"
  by (simp add: cmarkup_current_unique_id_def)

text \<open>
  C7. Two calls of \<open>current\<close> in a row, with no increment between them, return the
  same value.
\<close>

theorem current_twice_same_value:
  "fst (cmarkup_current_unique_id (snd (cmarkup_current_unique_id g)))
   = fst (cmarkup_current_unique_id g)"
  by (simp add: cmarkup_current_unique_id_def)

subsection \<open>Wraparound\<close>

text \<open>
  C5. When the counter is \<open>2^64 - 1\<close> the next \<open>incrementAndGet\<close> sets it to 0 and
  returns 0. The call returns like any other: the caller gets the value 0 and nothing
  that tells a wraparound from an ordinary return.
\<close>

theorem increment_wraps_to_zero:
  assumes "unat (cmarkup_unique_id g) = 2 ^ 64 - 1"
  shows "cmarkup_increment_and_get_unique_id g = (0, g\<lparr>cmarkup_unique_id := 0\<rparr>)"
proof -
  from assms have "cmarkup_unique_id g = UINT64_MAX"
    by (simp add: UINT64_MAX_iff)
  then show ?thesis
    by (simp add: cmarkup_increment_and_get_unique_id_def increment_at_max)
qed

text \<open>The same at the concrete state holding the largest value.\<close>

theorem increment_wraps_to_zero_witness:
  "unat (cmarkup_unique_id \<lparr>cmarkup_unique_id = 18446744073709551615\<rparr>) = 2 ^ 64 - 1
   \<and> cmarkup_increment_and_get_unique_id \<lparr>cmarkup_unique_id = 18446744073709551615\<rparr>
       = (0, \<lparr>cmarkup_unique_id = 0\<rparr>)"
proof -
  have top: "unat (cmarkup_unique_id \<lparr>cmarkup_unique_id = 18446744073709551615\<rparr>) = 2 ^ 64 - 1"
    by simp
  from increment_wraps_to_zero [OF top] top show ?thesis
    by simp
qed

subsection \<open>Sequences of calls from process start\<close>

text \<open>
  C3, as amended. After \<open>k\<close> calls of \<open>incrementAndGet\<close> from process start, with
  no other call between them, \<open>current\<close> returns \<open>k\<close> modulo \<open>2^64\<close>; this is
  \<open>k\<close> itself whenever \<open>k < 2^64\<close>.
\<close>

theorem current_after_k_increments: "unat (fst (cmarkup_current_unique_id
     (snd (run (replicate k Increment_and_get_unique_id) process_start)))) = k mod 2 ^ 64
  \<and> (k < 2 ^ 64 \<longrightarrow> unat (fst (cmarkup_current_unique_id
     (snd (run (replicate k Increment_and_get_unique_id) process_start)))) = k)"
  unfolding current_after_increments by simp

text \<open>Three increments from process start: \<open>current\<close> returns 3.\<close>

theorem current_after_k_increments_witness: "(3::nat) < 2 ^ 64 \<and> unat (fst (cmarkup_current_unique_id
     (snd (run (replicate 3 Increment_and_get_unique_id) process_start)))) = 3"
  using current_after_k_increments [of 3] by simp

text \<open>
  C3, as stated, for every \<open>k\<close>: it fails at \<open>k = 2^64\<close>. The counter has wrapped
  around once and \<open>current\<close> returns 0, which is not \<open>2^64\<close>; no \<open>uint64_t\<close> is.
\<close>

theorem current_after_two_pow_64_increments_counterexample: "unat (fst (cmarkup_current_unique_id
     (snd (run (replicate (2 ^ 64) Increment_and_get_unique_id) process_start)))) \<noteq> 2 ^ 64"
  unfolding current_after_increments by simp

text \<open>
  C4. In every sequence of calls from process start, a call of \<open>incrementAndGet\<close>
  returns a value strictly greater than every value returned before it, by \<open>current\<close>
  or by \<open>incrementAndGet\<close>, unless wraparound has occurred by then. The sequence
  \<open>es\<close> is what was called before; the comparison is the unsigned one of \<open>uint64_t\<close>.
\<close>

theorem increment_exceeds_previous_returns:
  assumes "\<not> wraparound_occurred (es @ [Increment_and_get_unique_id]) process_start"
  shows "\<forall>v \<in> set (butlast (fst (run (es @ [Increment_and_get_unique_id]) process_start))).
           v < last (fst (run (es @ [Increment_and_get_unique_id]) process_start))"
  using assms by (rule increment_exceeds_earlier)

text \<open>
  Increment, read, increment, then the increment in question: the values returned are
  1, 1, 2 and then 3.
\<close>

theorem increment_exceeds_previous_returns_witness:
  "\<not> wraparound_occurred ([Increment_and_get_unique_id, Current_unique_id, Increment_and_get_unique_id]
        @ [Increment_and_get_unique_id]) process_start
   \<and> fst (run ([Increment_and_get_unique_id, Current_unique_id, Increment_and_get_unique_id]
        @ [Increment_and_get_unique_id]) process_start) = [1, 1, 2, 3]
   \<and> 1 < last (fst (run ([Increment_and_get_unique_id, Current_unique_id, Increment_and_get_unique_id]
        @ [Increment_and_get_unique_id]) process_start))
   \<and> 2 < last (fst (run ([Increment_and_get_unique_id, Current_unique_id, Increment_and_get_unique_id]
        @ [Increment_and_get_unique_id]) process_start))"
proof -
  let ?es = "[Increment_and_get_unique_id, Current_unique_id, Increment_and_get_unique_id]"
  have quiet: "\<not> wraparound_occurred (?es @ [Increment_and_get_unique_id]) process_start"
    by (simp add: process_start_def UINT64_MAX_def)
  have vals: "fst (run (?es @ [Increment_and_get_unique_id]) process_start) = [1, 1, 2, 3]"
    by (simp add: process_start_def split_beta)
  from increment_exceeds_previous_returns [OF quiet] quiet vals show ?thesis
    by simp
qed

subsection \<open>Dependence on the counter alone\<close>

text \<open>
  C10. Both operations are deterministic functions of the counter alone. Take two
  executions of the same operation whose states hold equal counters; whatever else the
  two processes hold, \<open>g1\<close> and \<open>g2\<close> may differ in it, and even in its type. The two
  executions return equal values and leave equal counters, and each leaves the rest of
  its state as it was.
\<close>

theorem calls_depend_on_counter_alone:
  fixes g1 :: "'a globals_scheme" and g2 :: "'b globals_scheme"
  assumes same: "cmarkup_unique_id g1 = cmarkup_unique_id g2"
  shows "fst (call e g1) = fst (call e g2)
     \<and> cmarkup_unique_id (snd (call e g1)) = cmarkup_unique_id (snd (call e g2))
     \<and> globals.more (snd (call e g1)) = globals.more g1
     \<and> globals.more (snd (call e g2)) = globals.more g2"
proof (intro conjI)
  from same show "fst (call e g1) = fst (call e g2)"
    by (rule call_value_from_counter)
  from same show "cmarkup_unique_id (snd (call e g1)) = cmarkup_unique_id (snd (call e g2))"
    by (rule call_counter_from_counter)
  show "globals.more (snd (call e g1)) = globals.more g1"
    by (rule call_keeps_rest)
  show "globals.more (snd (call e g2)) = globals.more g2"
    by (rule call_keeps_rest)
qed

text \<open>
  Two increments with the counter at 5, in states that differ in what else they hold
  (\<open>True\<close> in one, the number 7 in the other): both return 6 and leave the counter
  at 6.
\<close>

theorem calls_depend_on_counter_alone_witness:
  "cmarkup_unique_id \<lparr>cmarkup_unique_id = 5, \<dots> = True\<rparr>
     = cmarkup_unique_id \<lparr>cmarkup_unique_id = 5, \<dots> = (7 :: nat)\<rparr>
   \<and> fst (call Increment_and_get_unique_id \<lparr>cmarkup_unique_id = 5, \<dots> = True\<rparr>)
     = fst (call Increment_and_get_unique_id \<lparr>cmarkup_unique_id = 5, \<dots> = (7 :: nat)\<rparr>)
   \<and> fst (call Increment_and_get_unique_id \<lparr>cmarkup_unique_id = 5, \<dots> = True\<rparr>) = 6
   \<and> cmarkup_unique_id
        (snd (call Increment_and_get_unique_id \<lparr>cmarkup_unique_id = 5, \<dots> = (7 :: nat)\<rparr>)) = 6
   \<and> globals.more (snd (call Increment_and_get_unique_id \<lparr>cmarkup_unique_id = 5, \<dots> = True\<rparr>))
     = True"
proof -
  let ?g1 = "\<lparr>cmarkup_unique_id = 5, \<dots> = True\<rparr>"
  let ?g2 = "\<lparr>cmarkup_unique_id = 5, \<dots> = (7 :: nat)\<rparr>"
  have same: "cmarkup_unique_id ?g1 = cmarkup_unique_id ?g2"
    by simp
  from calls_depend_on_counter_alone [OF same, of Increment_and_get_unique_id] same
  show ?thesis
    by simp
qed

end
